theory Spec2Isabelle
  imports Main "HOL-Library.Sublist" "HOL-Library.Log_Nat" "HOL-Library.AList"
begin

section \<open>Python values used by the downloader (api/main.py)\<close>

text \<open>
  Strings are lists of characters; a character stands for a code point below 256, which
  is where \<^verbatim>\<open>str.strip\<close> and \<^verbatim>\<open>int\<close> behave as written below. Python integers are
  unbounded (\<^typ>\<open>int\<close>); the interpreter's optional limit on the number of digits of a
  decimal conversion is not modelled. An exception is a kind and its description
  (\<^verbatim>\<open>str(e)\<close>).
\<close>

datatype exn_kind = ValueError | OverflowError | ZeroDivisionError | TimeoutError | OtherException

type_synonym exn = "exn_kind \<times> string"

subsection \<open>String methods\<close>

definition py_isspace :: "char \<Rightarrow> bool" where
  "py_isspace c = (of_char c \<in> {9, 10, 11, 12, 13, 28, 29, 30, 31, 32, 133, 160 :: nat})"

definition py_strip :: "string \<Rightarrow> string" where
  "py_strip s = rev (dropWhile py_isspace (rev (dropWhile py_isspace s)))"

text \<open>\<^verbatim>\<open>s.replace(old, new)\<close>: every non-overlapping occurrence, from the left.\<close>

function py_replace :: "string \<Rightarrow> string \<Rightarrow> string \<Rightarrow> string" where
  "py_replace old new s =
     (if old = [] then concat (map (\<lambda>c. new @ [c]) s) @ new
      else if s = [] then []
      else if prefix old s then new @ py_replace old new (drop (length old) s)
      else hd s # py_replace old new (tl s))"
  by pat_completeness auto
termination
  by (relation "measure (\<lambda>(old, new, s). length s)") auto

declare py_replace.simps [simp del]

text \<open>\<^verbatim>\<open>s.split(sep)\<close> for a separator of one character.\<close>

fun py_split :: "char \<Rightarrow> string \<Rightarrow> string list" where
  "py_split sep [] = [[]]"
| "py_split sep (c # cs) =
     (if c = sep then [] # py_split sep cs
      else (case py_split sep cs of p # ps \<Rightarrow> (c # p) # ps | [] \<Rightarrow> [[c]]))"

text \<open>\<^verbatim>\<open>sub in s\<close> is \<^term>\<open>sublist sub s\<close>; \<^verbatim>\<open>s.startswith(p)\<close> is \<^term>\<open>prefix p s\<close>.\<close>

subsection \<open>\<^verbatim>\<open>int(s)\<close> and \<^verbatim>\<open>str(n)\<close>\<close>

definition is_digit :: "char \<Rightarrow> bool" where
  "is_digit c = (48 \<le> (of_char c :: nat) \<and> (of_char c :: nat) \<le> 57)"

definition digit_val :: "char \<Rightarrow> nat" where
  "digit_val c = of_char c - 48"

text \<open>Digits after the first one; a single underscore may stand between two digits.\<close>

fun digits_from :: "nat \<Rightarrow> string \<Rightarrow> nat option" where
  "digits_from acc [] = Some acc"
| "digits_from acc [c] = (if is_digit c then Some (10 * acc + digit_val c) else None)"
| "digits_from acc (c # d # cs) =
     (if is_digit c then digits_from (10 * acc + digit_val c) (d # cs)
      else if c = CHR ''_'' \<and> is_digit d then digits_from (10 * acc + digit_val d) cs
      else None)"

definition parse_digits :: "string \<Rightarrow> nat option" where
  "parse_digits s =
     (case s of [] \<Rightarrow> None
      | c # cs \<Rightarrow> if is_digit c then digits_from (digit_val c) cs else None)"

definition invalid_literal :: exn where
  "invalid_literal = (ValueError, ''invalid literal for int() with base 10'')"

definition py_int :: "string \<Rightarrow> exn + int" where
  "py_int s =
     (case py_strip s of
        [] \<Rightarrow> Inl invalid_literal
      | c # cs \<Rightarrow>
          if c = CHR ''-'' then
            (case parse_digits cs of None \<Rightarrow> Inl invalid_literal | Some n \<Rightarrow> Inr (- int n))
          else if c = CHR ''+'' then
            (case parse_digits cs of None \<Rightarrow> Inl invalid_literal | Some n \<Rightarrow> Inr (int n))
          else
            (case parse_digits (c # cs) of None \<Rightarrow> Inl invalid_literal | Some n \<Rightarrow> Inr (int n)))"

definition digit_char :: "nat \<Rightarrow> char" where
  "digit_char n = ''0123456789'' ! n"

fun nat_digits :: "nat \<Rightarrow> string" where
  "nat_digits n = (if n < 10 then [digit_char n] else nat_digits (n div 10) @ [digit_char (n mod 10)])"

declare nat_digits.simps [simp del]

definition py_str :: "int \<Rightarrow> string" where
  "py_str n = (if n < 0 then CHR ''-'' # nat_digits (nat (- n)) else nat_digits (nat n))"

text \<open>Truth value of an \<^verbatim>\<open>Optional[str]\<close>: \<^verbatim>\<open>None\<close> and the empty string are false.\<close>

fun truthy :: "string option \<Rightarrow> bool" where
  "truthy None = False"
| "truthy (Some s) = (s \<noteq> [])"

section \<open>Format selector\<close>

text \<open>
  The body of the inner \<^verbatim>\<open>try\<close> of \<^verbatim>\<open>get_optimized_format_selector\<close>: the audio part of
  the selection for an explicit audio pick.
\<close>

definition audio_bitrate_selector :: "string \<Rightarrow> exn + string" where
  "audio_bitrate_selector a =
     (case py_int (py_replace ''kbps'' '''' a) of
        Inl e \<Rightarrow> Inl e
      | Inr bitrate \<Rightarrow>
          Inr (''bestaudio[abr<='' @ py_str (bitrate + 10) @ ''][abr>='' @ py_str (bitrate - 10) @ '']''))"

text \<open>\<^verbatim>\<open>except ValueError: pass\<close> around it: the selector stays \<^verbatim>\<open>"bestaudio"\<close>.\<close>

definition explicit_audio_selector :: "string option \<Rightarrow> exn + string" where
  "explicit_audio_selector selected_audio_format =
     (if truthy selected_audio_format \<and> sublist ''kbps'' (the selected_audio_format) then
        (case audio_bitrate_selector (the selected_audio_format) of
           Inl (ValueError, m) \<Rightarrow> Inr ''bestaudio''
         | Inl e \<Rightarrow> Inl e
         | Inr s \<Rightarrow> Inr s)
      else Inr ''bestaudio'')"

text \<open>The body of the outer \<^verbatim>\<open>try\<close>, entered when a video pick is given.\<close>

definition explicit_selector :: "string \<Rightarrow> string option \<Rightarrow> exn + string" where
  "explicit_selector v selected_audio_format =
     (case py_int (py_replace ''p'' '''' v) of
        Inl e \<Rightarrow> Inl e
      | Inr resolution \<Rightarrow>
          (case explicit_audio_selector selected_audio_format of
             Inl e \<Rightarrow> Inl e
           | Inr audio_selector \<Rightarrow>
               Inr (''bestvideo[height='' @ py_str resolution @ '']'' @ ''+'' @ audio_selector
                    @ ''/best[height='' @ py_str resolution @ '']/best'')))"

text \<open>\<^verbatim>\<open>format_selectors.get(quality, "best[ext=mp4]/best")\<close>.\<close>

definition format_selectors :: "(string \<times> string) list" where
  "format_selectors =
     [(''best'', ''best[ext=mp4]/best''),
      (''high'', ''best[height<=1080][ext=mp4]/best[height<=1080]''),
      (''medium'', ''best[height<=720][ext=mp4]/best[height<=720]''),
      (''low'', ''best[height<=480][ext=mp4]/best[height<=480]'')]"

definition quality_selector :: "string \<Rightarrow> string" where
  "quality_selector quality =
     (case map_of format_selectors quality of Some s \<Rightarrow> s | None \<Rightarrow> ''best[ext=mp4]/best'')"

definition get_optimized_format_selector ::
  "string \<Rightarrow> string option \<Rightarrow> string option \<Rightarrow> exn + string" where
  "get_optimized_format_selector quality selected_video_format selected_audio_format =
     (if truthy selected_video_format then
        (case explicit_selector (the selected_video_format) selected_audio_format of
           Inr s \<Rightarrow> Inr s
         | Inl (ValueError, m) \<Rightarrow> Inr (quality_selector quality)
         | Inl e \<Rightarrow> Inl e)
      else Inr (quality_selector quality))"

section \<open>Floating-point arithmetic\<close>

text \<open>
  The progress computations divide and multiply Python floats, which are IEEE binary64
  numbers. A finite float is modelled by the rational number it denotes; an operation
  computes the exact result and rounds it to the nearest representable number, ties to
  the even significand (53 bits, subnormal below \<open>2 powi - 1022\<close>, infinite from
  \<open>2 powi 1024\<close> on).
\<close>

datatype float = Finite rat | Infinity

definition round_half_even :: "rat \<Rightarrow> int" where
  "round_half_even q =
     (let f = \<lfloor>q\<rfloor>; r = q - of_int f
      in if r < 1 / 2 then f else if 1 / 2 < r then f + 1 else if even f then f else f + 1)"

text \<open>The binary exponent of a positive rational: \<open>2 powi ilog2 x \<le> x < 2 powi (ilog2 x + 1)\<close>.\<close>

definition ilog2 :: "rat \<Rightarrow> int" where
  "ilog2 x =
     (let e = bitlen (fst (quotient_of x)) - bitlen (snd (quotient_of x))
      in if 2 powi e \<le> x then e else e - 1)"

text \<open>The exponent of the binade used for rounding; it stops at the subnormal range.\<close>

definition bexp :: "rat \<Rightarrow> int" where
  "bexp x = max (ilog2 x) (- 1022)"

definition ulp :: "rat \<Rightarrow> rat" where
  "ulp x = 2 powi (bexp x - 52)"

text \<open>The representable number nearest to a positive rational, before the overflow test.\<close>

definition nearest :: "rat \<Rightarrow> rat" where
  "nearest x = of_int (round_half_even (x / ulp x)) * ulp x"

text \<open>The least magnitude that is no longer a finite float.\<close>

definition huge :: rat where
  "huge = 2 powi 1024"

definition round_binary64 :: "rat \<Rightarrow> float" where
  "round_binary64 x =
     (if x = 0 then Finite 0
      else if huge \<le> nearest \<bar>x\<bar> then Infinity
      else Finite (sgn x * nearest \<bar>x\<bar>))"

text \<open>
  \<^verbatim>\<open>a / b\<close> on two integers is the correctly rounded quotient; it raises when the
  divisor is zero or the quotient is too large for a float.
\<close>

definition py_truediv :: "int \<Rightarrow> int \<Rightarrow> exn + float" where
  "py_truediv a b =
     (if b = 0 then Inl (ZeroDivisionError, ''division by zero'')
      else (case round_binary64 (of_int a / of_int b) of
              Infinity \<Rightarrow> Inl (OverflowError, ''integer division result too large for a float'')
            | Finite q \<Rightarrow> Inr (Finite q)))"

text \<open>
  \<^verbatim>\<open>x * n\<close> and \<^verbatim>\<open>x / n\<close> for a float \<open>x\<close> and one of the integer constants of the
  source (20, 30, 40: positive and exactly representable).
\<close>

fun float_times :: "float \<Rightarrow> int \<Rightarrow> float" where
  "float_times (Finite x) n = round_binary64 (x * of_int n)"
| "float_times Infinity n = Infinity"

fun float_over :: "float \<Rightarrow> int \<Rightarrow> float" where
  "float_over (Finite x) n = round_binary64 (x / of_int n)"
| "float_over Infinity n = Infinity"

text \<open>\<^verbatim>\<open>int(x)\<close> on a float truncates towards zero and raises on an infinity.\<close>

fun int_of_float :: "float \<Rightarrow> exn + int" where
  "int_of_float (Finite x) = Inr (if 0 \<le> x then \<lfloor>x\<rfloor> else \<lceil>x\<rceil>)"
| "int_of_float Infinity = Inl (OverflowError, ''cannot convert float infinity to integer'')"

section \<open>Progress mapping\<close>

text \<open>\<^verbatim>\<open>min(45, 5 + int((int(downloaded) / int(total)) * 40))\<close>, on the parsed counters.\<close>

definition fetch_percent :: "int \<Rightarrow> int \<Rightarrow> exn + int" where
  "fetch_percent downloaded total_bytes =
     (case py_truediv downloaded total_bytes of
        Inl e \<Rightarrow> Inl e
      | Inr q \<Rightarrow>
          (case int_of_float (float_times q 40) of
             Inl e \<Rightarrow> Inl e
           | Inr n \<Rightarrow> Inr (min 45 (5 + n))))"

text \<open>\<^verbatim>\<open>min(90, 60 + int(elapsed / budget * 30))\<close>; the budget is 30 for video, 20 for audio.\<close>

definition transcode_percent :: "rat \<Rightarrow> int \<Rightarrow> exn + int" where
  "transcode_percent elapsed budget =
     (case int_of_float (float_times (float_over (Finite elapsed) budget) 30) of
        Inl e \<Rightarrow> Inl e
      | Inr n \<Rightarrow> Inr (min 90 (60 + n)))"

section \<open>Job state store\<close>

text \<open>
  \<^verbatim>\<open>active_tasks\<close> maps a task id to a dictionary. An orchestrator touches the entry of
  its own task only, and that entry exists from its first statement on, so the model
  follows this one entry: a dictionary in insertion order. The orchestrator writes it in
  two ways: \<^verbatim>\<open>active_tasks[task_id] = {...}\<close> binds a new dictionary,
  \<^verbatim>\<open>active_tasks[task_id][key] = value\<close> changes one item of the current one. A run of an
  orchestrator is described by the list of its writes, in the order they happen; what a
  status poll can read is the entry after any prefix of that list.
\<close>

datatype pyval = PyStr string | PyInt int

type_synonym status_record = "(string \<times> pyval) list"

datatype store_write = Assign status_record | SetItem string pyval

fun apply_write :: "status_record \<Rightarrow> store_write \<Rightarrow> status_record" where
  "apply_write r (Assign r') = r'"
| "apply_write r (SetItem k v) = AList.update k v r"

definition store_after :: "status_record \<Rightarrow> store_write list \<Rightarrow> status_record" where
  "store_after r ws = foldl apply_write r ws"



text \<open>The entry seeded by \<^verbatim>\<open>process_video\<close> before the orchestrator starts.\<close>

definition queued :: status_record where
  "queued = [(''status'', PyStr ''pending''), (''progress'', PyInt 0), (''message'', PyStr ''Task queued'')]"

section \<open>Fetch stage: reading the progress lines\<close>

text \<open>
  The body of the \<^verbatim>\<open>try\<close> inside the line loop of \<^verbatim>\<open>run_with_progress\<close>, on the
  stripped line; \<open>label\<close> is \<^verbatim>\<open>"Downloading video... "\<close> or \<^verbatim>\<open>"Downloading audio... "\<close>.
\<close>

definition progress_update :: "string \<Rightarrow> string \<Rightarrow> exn + store_write list" where
  "progress_update label line_text =
     (if prefix ''download:'' line_text then
        (let parts = py_split CHR '':'' line_text in
         if 1 < length parts \<and> sublist ''/'' (parts ! 1) then
           (case py_split CHR ''/'' (parts ! 1) of
              [downloaded, total_bytes] \<Rightarrow>
                if downloaded \<noteq> [] \<and> total_bytes \<noteq> [] then
                  (case py_int total_bytes of
                     Inl e \<Rightarrow> Inl e
                   | Inr t \<Rightarrow>
                       if 0 < t then
                         (case py_int downloaded of
                            Inl e \<Rightarrow> Inl e
                          | Inr d \<Rightarrow>
                              (case fetch_percent d t of
                                 Inl e \<Rightarrow> Inl e
                               | Inr percent \<Rightarrow>
                                   Inr [SetItem ''progress'' (PyInt percent),
                                        SetItem ''message'' (PyStr (label @ py_str percent @ ''%''))]))
                       else Inr [])
                else Inr []
            | _ \<Rightarrow> Inl (ValueError, ''too many values to unpack (expected 2)''))
         else Inr [])
      else Inr [])"

text \<open>\<^verbatim>\<open>except Exception\<close> around it logs the error; nothing is written.\<close>

definition line_writes :: "string \<Rightarrow> string \<Rightarrow> store_write list" where
  "line_writes label line_text =
     (case progress_update label line_text of Inl e \<Rightarrow> [] | Inr ws \<Rightarrow> ws)"

text \<open>
  What the process hands to the loop: a line of text, or bytes that do not decode; the
  latter carries the description of the decoding error.
\<close>

datatype stdout_line = Text string | Undecodable string

text \<open>
  The line loop. \<open>out n\<close> is what the \<open>n\<close>-th read returns, \<open>None\<close> for the end of the
  stream; a process that never closes its output keeps the loop running, and then the
  function has no value. On Windows the lines come from a text-mode pipe, whose iterator
  raises on undecodable bytes, outside the \<^verbatim>\<open>try\<close>; elsewhere \<^verbatim>\<open>line.decode\<close> is
  inside the \<^verbatim>\<open>try\<close>. The result is the writes made and the exception that ended the
  loop, if one did.
\<close>

partial_function (option) monitor ::
  "bool \<Rightarrow> string \<Rightarrow> (nat \<Rightarrow> stdout_line option) \<Rightarrow> nat \<Rightarrow> store_write list
     \<Rightarrow> (store_write list \<times> exn option) option" where
  "monitor windows label out n ws =
     (case out n of
        None \<Rightarrow> Some (ws, None)
      | Some (Text s) \<Rightarrow> monitor windows label out (Suc n) (ws @ line_writes label (py_strip s))
      | Some (Undecodable m) \<Rightarrow>
          if windows then Some (ws, Some (OtherException, m))
          else monitor windows label out (Suc n) ws)"

record fetch_process =
  spawn_error :: "exn option"
  stdout :: "nat \<Rightarrow> stdout_line option"
  returncode :: int

text \<open>
  \<^verbatim>\<open>run_with_progress\<close>: start the process, follow its output to the end, wait for it
  and return its exit code. No step of it is given a time limit.
\<close>

definition run_with_progress ::
  "bool \<Rightarrow> string \<Rightarrow> fetch_process \<Rightarrow> (store_write list \<times> (exn + int)) option" where
  "run_with_progress windows label p =
     (case spawn_error p of
        Some e \<Rightarrow> Some ([], Inl e)
      | None \<Rightarrow>
          (case monitor windows label (stdout p) 0 [] of
             None \<Rightarrow> None
           | Some (ws, Some e) \<Rightarrow> Some (ws, Inl e)
           | Some (ws, None) \<Rightarrow> Some (ws, Inr (returncode p))))"

section \<open>Transcode stage: polling the process\<close>

text \<open>
  \<open>running n\<close> is the \<open>n\<close>-th test of the loop condition: \<open>Some elapsed\<close> when the
  process has not exited, with the seconds since its start, \<open>None\<close> when it has.
\<close>

partial_function (option) poll ::
  "string \<Rightarrow> int \<Rightarrow> (nat \<Rightarrow> rat option) \<Rightarrow> nat \<Rightarrow> store_write list
     \<Rightarrow> (store_write list \<times> exn option) option" where
  "poll label budget running n ws =
     (case running n of
        None \<Rightarrow> Some (ws, None)
      | Some elapsed \<Rightarrow>
          (case transcode_percent elapsed budget of
             Inl e \<Rightarrow> Some (ws, Some e)
           | Inr progress \<Rightarrow>
               poll label budget running (Suc n)
                 (ws @ [SetItem ''progress'' (PyInt progress),
                        SetItem ''message'' (PyStr (label @ py_str progress @ ''%''))])))"

record transcode_process =
  ffmpeg_spawn_error :: "exn option"
  ffmpeg_running :: "nat \<Rightarrow> rat option"
  ffmpeg_returncode :: int
  ffmpeg_stderr :: string

definition run_ffmpeg_with_progress ::
  "string \<Rightarrow> int \<Rightarrow> transcode_process \<Rightarrow> (store_write list \<times> (exn + int \<times> string)) option" where
  "run_ffmpeg_with_progress label budget p =
     (case ffmpeg_spawn_error p of
        Some e \<Rightarrow> Some ([], Inl e)
      | None \<Rightarrow>
          (case poll label budget (ffmpeg_running p) 0 [] of
             None \<Rightarrow> None
           | Some (ws, Some e) \<Rightarrow> Some (ws, Inl e)
           | Some (ws, None) \<Rightarrow> Some (ws, Inr (ffmpeg_returncode p, ffmpeg_stderr p))))"

section \<open>Pipeline orchestrator\<close>

record job =
  task_id :: string
  url :: string
  output_format :: string
  quality :: string
  trim_start :: "string option"
  trim_end :: "string option"
  selected_video_format :: "string option"
  selected_audio_format :: "string option"

text \<open>Everything outside the program that one run depends on.\<close>

record environment =
  is_windows :: bool
  fetch :: fetch_process
  downloaded_files :: "string list"
  transcode :: transcode_process
  unlink_error :: "exn option"

text \<open>
  \<^verbatim>\<open>download_and_process_video\<close> and \<^verbatim>\<open>download_and_process_audio\<close> are the same
  statements in the same order; they differ in the texts they store, in the stream
  selection, in the time budget of the transcode estimate and in the name of the output
  file. The model shares the statements and takes the differences as parameters.
\<close>

record wording =
  starting_message :: string
  downloading_message :: string
  line_label :: string
  exit_message :: string
  timeout_error :: string
  no_file_message :: string
  processing_message :: string
  converting_message :: string
  tick_label :: string
  time_budget :: int
  failed_message :: string
  ready_message :: string

definition video_wording :: wording where
  "video_wording =
     \<lparr>starting_message = ''Starting download...'',
      downloading_message = ''Downloading video...'',
      line_label = ''Downloading video... '',
      exit_message = ''Download failed'',
      timeout_error = ''Download took too long'',
      no_file_message = ''Download failed - no file found'',
      processing_message = ''Processing video...'',
      converting_message = ''Converting video format...'',
      tick_label = ''Processing video... '',
      time_budget = 30,
      failed_message = ''Processing failed'',
      ready_message = ''Ready for download''\<rparr>"

definition audio_wording :: wording where
  "audio_wording =
     \<lparr>starting_message = ''Starting audio download...'',
      downloading_message = ''Downloading audio...'',
      line_label = ''Downloading audio... '',
      exit_message = ''Audio download failed'',
      timeout_error = ''Audio download took too long'',
      no_file_message = ''Audio download failed - no file found'',
      processing_message = ''Processing audio...'',
      converting_message = ''Converting audio format...'',
      tick_label = ''Processing audio... '',
      time_budget = 20,
      failed_message = ''Audio processing failed'',
      ready_message = ''Audio ready for download''\<rparr>"

text \<open>The dictionaries assigned to the entry.\<close>

definition downloading_record :: "wording \<Rightarrow> status_record" where
  "downloading_record w =
     [(''status'', PyStr ''downloading''), (''progress'', PyInt 5), (''message'', PyStr (starting_message w))]"

definition exit_failed_record :: "wording \<Rightarrow> status_record" where
  "exit_failed_record w =
     [(''status'', PyStr ''failed''), (''progress'', PyInt 0), (''message'', PyStr (exit_message w)),
      (''error'', PyStr ''Process exited with non-zero code'')]"

definition timeout_record :: "wording \<Rightarrow> status_record" where
  "timeout_record w =
     [(''status'', PyStr ''failed''), (''progress'', PyInt 0), (''message'', PyStr ''Download timeout''),
      (''error'', PyStr (timeout_error w))]"

definition no_file_record :: "wording \<Rightarrow> status_record" where
  "no_file_record w =
     [(''status'', PyStr ''failed''), (''progress'', PyInt 0), (''message'', PyStr (no_file_message w))]"

definition processing_record :: "wording \<Rightarrow> status_record" where
  "processing_record w =
     [(''status'', PyStr ''processing''), (''progress'', PyInt 50), (''message'', PyStr (processing_message w))]"

definition failed_record :: "wording \<Rightarrow> string \<Rightarrow> status_record" where
  "failed_record w error_msg =
     [(''status'', PyStr ''failed''), (''progress'', PyInt 0), (''message'', PyStr (failed_message w)),
      (''error'', PyStr error_msg)]"

definition completed_record :: "wording \<Rightarrow> string \<Rightarrow> status_record" where
  "completed_record w output_filename =
     [(''status'', PyStr ''completed''), (''progress'', PyInt 100), (''message'', PyStr (ready_message w)),
      (''download_url'', PyStr (''/downloads/'' @ output_filename))]"

text \<open>
  The body of the outer \<^verbatim>\<open>try\<close>, from the processing record on: the processing
  record and the step to 60, the transcode stage and the end of the job. The result is
  the writes made and the exception that left the body, if one did.
\<close>

definition processing_writes :: "wording \<Rightarrow> store_write list" where
  "processing_writes w =
     [Assign (processing_record w),
      SetItem ''progress'' (PyInt 60),
      SetItem ''message'' (PyStr (converting_message w))]"

definition transcode_and_finish ::
  "wording \<Rightarrow> string \<Rightarrow> environment \<Rightarrow> (store_write list \<times> exn option) option" where
  "transcode_and_finish w output_filename env =
     (let ws = processing_writes w
      in case run_ffmpeg_with_progress (tick_label w) (time_budget w) (transcode env) of
           None \<Rightarrow> None
         | Some (tw, Inl e) \<Rightarrow> Some (ws @ tw, Some e)
         | Some (tw, Inr (rc, stderr)) \<Rightarrow>
             if rc \<noteq> 0 then
               Some (ws @ tw @ [Assign (failed_record w (if stderr \<noteq> [] then stderr else ''Unknown error''))],
                     None)
             else
               (case unlink_error env of
                  Some e \<Rightarrow> Some (ws @ tw, Some e)
                | None \<Rightarrow> Some (ws @ tw @ [Assign (completed_record w output_filename)], None)))"

text \<open>
  The body of the outer \<^verbatim>\<open>try\<close>; \<open>selector\<close> is the result of the stream selection,
  made after the first record is assigned and before progress is set to 10.
\<close>

definition starting_writes :: "wording \<Rightarrow> store_write list" where
  "starting_writes w =
     [Assign (downloading_record w),
      SetItem ''progress'' (PyInt 10),
      SetItem ''message'' (PyStr (downloading_message w))]"

definition pipeline_body ::
  "wording \<Rightarrow> exn + string \<Rightarrow> string \<Rightarrow> environment \<Rightarrow> (store_write list \<times> exn option) option" where
  "pipeline_body w selector output_filename env =
     (case selector of
        Inl e \<Rightarrow> Some ([Assign (downloading_record w)], Some e)
      | Inr format_selector \<Rightarrow>
          (let ws = starting_writes w
           in case run_with_progress (is_windows env) (line_label w) (fetch env) of
                None \<Rightarrow> None
              | Some (lw, Inl e) \<Rightarrow>
                  if fst e = TimeoutError then Some (ws @ lw @ [Assign (timeout_record w)], None)
                  else Some (ws @ lw, Some e)
              | Some (lw, Inr rc) \<Rightarrow>
                  if rc \<noteq> 0 then Some (ws @ lw @ [Assign (exit_failed_record w)], None)
                  else if downloaded_files env = [] then Some (ws @ lw @ [Assign (no_file_record w)], None)
                  else
                    (case transcode_and_finish w output_filename env of
                       None \<Rightarrow> None
                     | Some (tw, e) \<Rightarrow> Some (ws @ lw @ tw, e))))"

text \<open>The outer \<^verbatim>\<open>except Exception as e\<close>: a failed record with \<^verbatim>\<open>str(e)\<close>.\<close>

definition pipeline ::
  "wording \<Rightarrow> exn + string \<Rightarrow> string \<Rightarrow> environment \<Rightarrow> store_write list option" where
  "pipeline w selector output_filename env =
     (case pipeline_body w selector output_filename env of
        None \<Rightarrow> None
      | Some (ws, None) \<Rightarrow> Some ws
      | Some (ws, Some e) \<Rightarrow> Some (ws @ [Assign (failed_record w (snd e))]))"

definition download_and_process_video :: "job \<Rightarrow> environment \<Rightarrow> store_write list option" where
  "download_and_process_video j env =
     pipeline video_wording
       (get_optimized_format_selector (quality j) (selected_video_format j) (selected_audio_format j))
       (task_id j @ ''.'' @ output_format j) env"

text \<open>
  In the audio orchestrator the stream selection is written out in place; it is the
  audio part of the format selector, followed by \<^verbatim>\<open>/bestaudio/best\<close>.
\<close>

definition audio_format_argument :: "string option \<Rightarrow> exn + string" where
  "audio_format_argument selected =
     (case explicit_audio_selector selected of
        Inl e \<Rightarrow> Inl e
      | Inr audio_selector \<Rightarrow> Inr (audio_selector @ ''/bestaudio/best''))"

definition audio_output_filename :: "job \<Rightarrow> string" where
  "audio_output_filename j =
     (if output_format j \<in> set [''mp3'', ''m4a'', ''ogg'', ''wav'']
      then task_id j @ ''.'' @ output_format j
      else task_id j @ ''.mp3'')"

definition download_and_process_audio :: "job \<Rightarrow> environment \<Rightarrow> store_write list option" where
  "download_and_process_audio j env =
     pipeline audio_wording (audio_format_argument (selected_audio_format j))
       (audio_output_filename j) env"

section \<open>Processes that end\<close>

text \<open>
  A process whose output ends after the lines \<open>xs\<close>, and the two loops on such a
  process, as recursion on the lines that are left.
\<close>

definition finite_stream :: "'a list \<Rightarrow> nat \<Rightarrow> 'a option" where
  "finite_stream xs n = (if n < length xs then Some (xs ! n) else None)"

fun monitor_lines ::
  "bool \<Rightarrow> string \<Rightarrow> stdout_line list \<Rightarrow> store_write list \<Rightarrow> store_write list \<times> exn option" where
  "monitor_lines windows label [] ws = (ws, None)"
| "monitor_lines windows label (Text s # ls) ws =
     monitor_lines windows label ls (ws @ line_writes label (py_strip s))"
| "monitor_lines windows label (Undecodable m # ls) ws =
     (if windows then (ws, Some (OtherException, m)) else monitor_lines windows label ls ws)"


section \<open>Sample jobs and environments\<close>

definition sample_job :: job where
  "sample_job =
     \<lparr>task_id = ''7d1f'', url = ''https://example.com/watch?v=1'', output_format = ''mp4'',
      quality = ''high'', trim_start = None, trim_end = None,
      selected_video_format = None, selected_audio_format = None\<rparr>"

text \<open>A fetch process that prints the given lines and exits with the given code.\<close>

definition fetch_exits :: "stdout_line list \<Rightarrow> int \<Rightarrow> fetch_process" where
  "fetch_exits ls rc = \<lparr>spawn_error = None, stdout = finite_stream ls, returncode = rc\<rparr>"

text \<open>A fetch process that keeps printing the same progress line and never ends.\<close>

definition fetch_hangs :: fetch_process where
  "fetch_hangs = \<lparr>spawn_error = None, stdout = (\<lambda>n. Some (Text ''download:1/2'')), returncode = 0\<rparr>"

text \<open>A transcode process seen running at the given times, then exited.\<close>

definition transcode_exits :: "rat list \<Rightarrow> int \<Rightarrow> string \<Rightarrow> transcode_process" where
  "transcode_exits ts rc err =
     \<lparr>ffmpeg_spawn_error = None, ffmpeg_running = finite_stream ts,
      ffmpeg_returncode = rc, ffmpeg_stderr = err\<rparr>"

definition sample_env :: "fetch_process \<Rightarrow> string list \<Rightarrow> transcode_process \<Rightarrow> environment" where
  "sample_env f files t =
     \<lparr>is_windows = False, fetch = f, downloaded_files = files, transcode = t, unlink_error = None\<rparr>"

section \<open>Kinds of writes\<close>


section \<open>Properties of the format selector\<close>


lemma quality_selector_cases:
  "quality_selector q = (if q = ''best'' then ''best[ext=mp4]/best''
     else if q = ''high'' then ''best[height<=1080][ext=mp4]/best[height<=1080]''
     else if q = ''medium'' then ''best[height<=720][ext=mp4]/best[height<=720]''
     else if q = ''low'' then ''best[height<=480][ext=mp4]/best[height<=480]''
     else ''best[ext=mp4]/best'')"
  by (simp add: quality_selector_def format_selectors_def)







text \<open>
  C7. Called without a video pick (\<^verbatim>\<open>None\<close> or the empty string), the selector returns
  a non-empty expression; it is the one with height ceiling 1080 for \<^verbatim>\<open>high\<close>, 720 for
  \<^verbatim>\<open>medium\<close>, 480 for \<^verbatim>\<open>low\<close>, and for \<^verbatim>\<open>best\<close> and every other quality the
  expression \<^verbatim>\<open>best[ext=mp4]/best\<close>, which names no height.
\<close>

theorem format_selector_quality_mapping:
  "\<not> truthy v \<Longrightarrow>
   (\<exists>s. get_optimized_format_selector q v a = Inr s \<and> s \<noteq> [] \<and>
     (q = ''high'' \<longrightarrow> s = ''best[height<=1080][ext=mp4]/best[height<=1080]'') \<and>
     (q = ''medium'' \<longrightarrow> s = ''best[height<=720][ext=mp4]/best[height<=720]'') \<and>
     (q = ''low'' \<longrightarrow> s = ''best[height<=480][ext=mp4]/best[height<=480]'') \<and>
     (q \<notin> {''high'', ''medium'', ''low''} \<longrightarrow>
        s = ''best[ext=mp4]/best'' \<and> \<not> sublist ''height'' s))"
  by (simp add: get_optimized_format_selector_def quality_selector_cases sublist_Cons_right)

theorem format_selector_quality_mapping_witness:
  "\<not> truthy None \<and>
   get_optimized_format_selector ''high'' None None =
     Inr ''best[height<=1080][ext=mp4]/best[height<=1080]'' \<and>
   get_optimized_format_selector ''ultra'' None None = Inr ''best[ext=mp4]/best''"
  using format_selector_quality_mapping [of None "''high''" None]
    format_selector_quality_mapping [of None "''ultra''" None]
  by simp




text \<open>
  C10. Without a video pick (\<^verbatim>\<open>None\<close> or the empty string) the audio pick plays no part:
  the result is the quality-based expression, the same as with no audio pick, and it
  holds no \<^verbatim>\<open>abr\<close> constraint.
\<close>

theorem audio_pick_unused_without_video_pick:
  "\<not> truthy v \<Longrightarrow>
   get_optimized_format_selector q v a = Inr (quality_selector q) \<and>
   get_optimized_format_selector q v a = get_optimized_format_selector q v None \<and>
   \<not> sublist ''abr'' (quality_selector q)"
  by (simp add: get_optimized_format_selector_def quality_selector_cases sublist_Cons_right)

theorem audio_pick_unused_without_video_pick_witness:
  "\<not> truthy (Some '''') \<and>
   get_optimized_format_selector ''medium'' (Some '''') (Some ''128kbps'') =
     Inr ''best[height<=720][ext=mp4]/best[height<=720]''"
  using audio_pick_unused_without_video_pick [of "Some ''''" "''medium''" "Some ''128kbps''"]
  by (simp add: quality_selector_cases)

section \<open>Characters of an integer literal\<close>














section \<open>The two loops\<close>

lemma finite_stream_nth: "n < length xs \<Longrightarrow> finite_stream xs n = Some (xs ! n)"
  by (simp add: finite_stream_def)

lemma finite_stream_end: "length xs \<le> n \<Longrightarrow> finite_stream xs n = None"
  by (simp add: finite_stream_def)

lemma monitor_finite_aux:
  "length xs - n = k \<Longrightarrow>
   monitor windows label (finite_stream xs) n ws = Some (monitor_lines windows label (drop n xs) ws)"
proof (induction k arbitrary: n ws)
  case 0
  then have "drop n xs = []" and "finite_stream xs n = None"
    by (simp_all add: finite_stream_end)
  then show ?case by (subst monitor.simps) simp
next
  case (Suc k)
  then have n: "n < length xs" and k: "length xs - Suc n = k" by simp_all
  then have d: "drop n xs = xs ! n # drop (Suc n) xs" by (simp add: Cons_nth_drop_Suc)
  note f = finite_stream_nth [OF n]
  show ?case
  proof (cases "xs ! n")
    case (Text s)
    with d f Suc.IH [OF k] show ?thesis
      by (subst monitor.simps) simp
  next
    case (Undecodable m)
    with d f Suc.IH [OF k] show ?thesis
      by (subst monitor.simps) (cases windows; simp)
  qed
qed

lemma monitor_finite:
  "monitor windows label (finite_stream xs) 0 ws = Some (monitor_lines windows label xs ws)"
  using monitor_finite_aux [of xs 0] by simp



lemma monitor_returns_stop:
  assumes "monitor windows label out n ws = Some y"
  shows "\<exists>k. \<forall>s. out k \<noteq> Some (Text s)"
proof (rule monitor.raw_induct [where P = "\<lambda>w l ou n ws y. \<exists>k. \<forall>s. ou k \<noteq> Some (Text s)", OF _ assms])
  fix f :: "bool \<Rightarrow> string \<Rightarrow> (nat \<Rightarrow> stdout_line option) \<Rightarrow> nat \<Rightarrow> store_write list
     \<Rightarrow> (store_write list \<times> exn option) option"
  fix w l ou n ws y
  assume IH: "\<And>w l ou n ws y. f w l ou n ws = Some y \<Longrightarrow> \<exists>k. \<forall>s. ou k \<noteq> Some (Text s)"
  assume body: "(case ou n of None \<Rightarrow> Some (ws, None)
      | Some (Text s) \<Rightarrow> f w l ou (Suc n) (ws @ line_writes l (py_strip s))
      | Some (Undecodable m) \<Rightarrow>
          if w then Some (ws, Some (OtherException, m)) else f w l ou (Suc n) ws) = Some y"
  show "\<exists>k. \<forall>s. ou k \<noteq> Some (Text s)"
  proof (cases "ou n")
    case None
    then have "\<forall>s. ou n \<noteq> Some (Text s)" by simp
    then show ?thesis by blast
  next
    case (Some x)
    show ?thesis
    proof (cases x)
      case (Text s)
      with Some body have "f w l ou (Suc n) (ws @ line_writes l (py_strip s)) = Some y"
        by simp
      then show ?thesis by (rule IH)
    next
      case (Undecodable m)
      with Some have "\<forall>s. ou n \<noteq> Some (Text s)" by simp
      then show ?thesis by blast
    qed
  qed
qed

lemma monitor_endless:
  assumes "\<And>k. \<exists>s. out k = Some (Text s)"
  shows "monitor windows label out n ws = None"
proof (cases "monitor windows label out n ws")
  case None
  then show ?thesis .
next
  case (Some y)
  then obtain k where "\<forall>s. out k \<noteq> Some (Text s)" by (auto dest: monitor_returns_stop)
  with assms [of k] show ?thesis by blast
qed






section \<open>Rounding to binary64\<close>

lemma rhe_floor_le: "\<lfloor>q\<rfloor> \<le> round_half_even q"
  by (simp add: round_half_even_def Let_def)

lemma rhe_le_floor: "round_half_even q \<le> \<lfloor>q\<rfloor> + 1"
  by (simp add: round_half_even_def Let_def)

lemma rhe_of_int [simp]: "round_half_even (of_int n) = n"
  by (simp add: round_half_even_def Let_def)

lemma rhe_mono:
  assumes "q \<le> q'"
  shows "round_half_even q \<le> round_half_even q'"
proof -
  have f: "\<lfloor>q\<rfloor> \<le> \<lfloor>q'\<rfloor>" using assms by (rule floor_mono)
  show ?thesis
  proof (cases "\<lfloor>q\<rfloor> = \<lfloor>q'\<rfloor>")
    case True
    with assms show ?thesis
      by (auto simp: round_half_even_def Let_def)
  next
    case False
    with f have "\<lfloor>q\<rfloor> + 1 \<le> \<lfloor>q'\<rfloor>" by simp
    with rhe_le_floor [of q] rhe_floor_le [of q'] show ?thesis by linarith
  qed
qed















lemma ulp_pos [simp]: "0 < ulp x"
  by (simp add: ulp_def)

lemma ulp_nonneg [simp]: "0 \<le> ulp x"
  using ulp_pos [of x] by (rule less_imp_le)

lemma ulp_nonzero [simp]: "ulp x \<noteq> 0"
  by (simp add: ulp_def)








lemma nearest_nonneg: "0 < x \<Longrightarrow> 0 \<le> nearest x"
proof -
  assume "0 < x"
  then have "0 \<le> x / ulp x" by simp
  then have "round_half_even (of_int 0) \<le> round_half_even (x / ulp x)" by (simp only: rhe_mono of_int_0)
  then have "0 \<le> round_half_even (x / ulp x)" by (simp only: rhe_of_int)
  then show ?thesis by (simp add: nearest_def)
qed























































lemma round_value:
  assumes "round_binary64 x = Finite a"
  shows "a = (if x = 0 then 0 else sgn x * nearest \<bar>x\<bar>)"
  using assms by (auto simp: round_binary64_def split: if_splits)


lemma round_binary64_nonneg:
  assumes "0 \<le> x" and "round_binary64 x = Finite a"
  shows "0 \<le> a"
proof (cases "x = 0")
  case True
  with round_value [OF assms(2)] show ?thesis by simp
next
  case False
  with assms(1) have x: "0 < x" by simp
  with round_value [OF assms(2)] nearest_nonneg [OF x] show ?thesis by simp
qed


lemma fetch_percent_parts:
  assumes "fetch_percent d t = Inr p"
  obtains q r where "round_binary64 (of_int d / of_int t) = Finite q"
    and "round_binary64 (q * 40) = Finite r"
    and "p = min 45 (5 + (if 0 \<le> r then \<lfloor>r\<rfloor> else \<lceil>r\<rceil>))"
proof -
  from assms obtain q where q: "round_binary64 (of_int d / of_int t) = Finite q"
    by (cases "round_binary64 (of_int d / of_int t)")
      (auto simp: fetch_percent_def py_truediv_def split: if_splits)
  with assms have t: "t \<noteq> 0" by (auto simp: fetch_percent_def py_truediv_def split: if_splits)
  from assms q t obtain r where r: "round_binary64 (q * 40) = Finite r"
    by (cases "round_binary64 (q * 40)") (auto simp: fetch_percent_def py_truediv_def)
  from assms q t r have "p = min 45 (5 + (if 0 \<le> r then \<lfloor>r\<rfloor> else \<lceil>r\<rceil>))"
    by (auto simp: fetch_percent_def py_truediv_def)
  with q r show ?thesis by (rule that)
qed


lemma fetch_percent_range:
  assumes t: "0 < t" and d: "0 \<le> d" and p: "fetch_percent d t = Inr p"
  shows "5 \<le> p \<and> p \<le> 45"
proof -
  from p obtain q r where 1: "round_binary64 (of_int d / of_int t) = Finite q"
    "round_binary64 (q * 40) = Finite r"
    "p = min 45 (5 + (if 0 \<le> r then \<lfloor>r\<rfloor> else \<lceil>r\<rceil>))"
    by (rule fetch_percent_parts)
  have "(0::rat) \<le> of_int d / of_int t" using t d by simp
  then have "0 \<le> q" using 1(1) by (rule round_binary64_nonneg)
  then have "0 \<le> q * 40" by simp
  then have "0 \<le> r" using 1(2) by (rule round_binary64_nonneg)
  with 1(3) show ?thesis by simp
qed




section \<open>Runs of the orchestrators\<close>

lemma store_after_append: "store_after r (ws @ vs) = store_after (store_after r ws) vs"
  by (simp add: store_after_def)


lemma run_with_progress_finite:
  "run_with_progress windows label (fetch_exits ls rc) =
     (case monitor_lines windows label ls [] of
        (ws, Some e) \<Rightarrow> Some (ws, Inl e)
      | (ws, None) \<Rightarrow> Some (ws, Inr rc))"
  by (simp add: run_with_progress_def fetch_exits_def monitor_finite split: prod.splits option.splits)


lemma run_with_progress_hangs: "run_with_progress windows label fetch_hangs = None"
proof -
  have "monitor windows label (\<lambda>n. Some (Text ''download:1/2'')) 0 [] = None"
    by (rule monitor_endless) simp
  then show ?thesis by (simp add: run_with_progress_def fetch_hangs_def)
qed


lemma sample_selector:
  "get_optimized_format_selector (quality sample_job) (selected_video_format sample_job)
     (selected_audio_format sample_job) = Inr ''best[height<=1080][ext=mp4]/best[height<=1080]''"
  by (simp add: sample_job_def get_optimized_format_selector_def quality_selector_cases)

lemma sample_audio_selector:
  "audio_format_argument (selected_audio_format sample_job) = Inr ''bestaudio/bestaudio/best''"
  by (simp add: sample_job_def audio_format_argument_def explicit_audio_selector_def)




lemma no_file_run:
  "download_and_process_video sample_job (sample_env (fetch_exits [] 0) [] (transcode_exits [] 0 [])) =
     Some [Assign [(''status'', PyStr ''downloading''), (''progress'', PyInt 5),
                   (''message'', PyStr ''Starting download...'')],
           SetItem ''progress'' (PyInt 10),
           SetItem ''message'' (PyStr ''Downloading video...''),
           Assign [(''status'', PyStr ''failed''), (''progress'', PyInt 0),
                   (''message'', PyStr ''Download failed - no file found'')]]"
  by (simp add: download_and_process_video_def pipeline_def pipeline_body_def sample_selector
      sample_env_def run_with_progress_finite video_wording_def downloading_record_def
      starting_writes_def no_file_record_def)

text \<open>
  C1, at the input where the code departs from it: the fetch process exits with code 0
  and no file with the task's prefix exists. The record assigned has status \<^verbatim>\<open>failed\<close>
  and no \<^verbatim>\<open>error\<close> item.
\<close>

theorem no_file_record_lacks_error:
  "store_after queued
       (the (download_and_process_video sample_job
          (sample_env (fetch_exits [] 0) [] (transcode_exits [] 0 [])))) =
     [(''status'', PyStr ''failed''), (''progress'', PyInt 0),
      (''message'', PyStr ''Download failed - no file found'')] \<and>
   map_of (store_after queued
       (the (download_and_process_video sample_job
          (sample_env (fetch_exits [] 0) [] (transcode_exits [] 0 []))))) ''status'' = Some (PyStr ''failed'') \<and>
   map_of (store_after queued
       (the (download_and_process_video sample_job
          (sample_env (fetch_exits [] 0) [] (transcode_exits [] 0 []))))) ''error'' = None"
  by (simp add: no_file_run store_after_def)

text \<open>
  C4, at the input where the code departs from it: a fetch process that never closes
  its output. No time limit applies to the loop that reads it, so the orchestrator never
  returns: it writes no terminal record, and the handler for the timeout is not reached.
\<close>

theorem hanging_fetch_never_fails:
  "download_and_process_video sample_job (sample_env fetch_hangs [] (transcode_exits [] 0 [])) = None \<and>
   download_and_process_audio sample_job (sample_env fetch_hangs [] (transcode_exits [] 0 [])) = None"
  by (simp add: download_and_process_video_def download_and_process_audio_def pipeline_def
      pipeline_body_def sample_selector sample_audio_selector sample_env_def run_with_progress_hangs)

section \<open>Kinds of writes in a run\<close>












section \<open>Fetch-stage progress lines\<close>

















section \<open>Progress over a whole run\<close>




























end
